theory Spec2Isabelle
  imports Main "HOL-Library.AList"
begin

unbundle bit_operations_syntax

section \<open>JavaScript containers and strings\<close>

text \<open>
  A JavaScript \<open>Map\<close> keeps its entries in insertion order: \<open>set\<close> on a key that is
  present replaces the value in place, \<open>set\<close> on a new key appends, \<open>delete\<close> removes
  the entry. It is modelled as an association list whose keys are pairwise distinct.
\<close>

type_synonym ('k, 'v) js_map = "('k \<times> 'v) list"

definition map_get :: "('k, 'v) js_map \<Rightarrow> 'k \<Rightarrow> 'v option" where
  "map_get m k = map_of m k"

definition map_has :: "('k, 'v) js_map \<Rightarrow> 'k \<Rightarrow> bool" where
  "map_has m k = (map_of m k \<noteq> None)"

definition map_set :: "'k \<Rightarrow> 'v \<Rightarrow> ('k, 'v) js_map \<Rightarrow> ('k, 'v) js_map" where
  "map_set k v m = AList.update k v m"

definition map_delete :: "'k \<Rightarrow> ('k, 'v) js_map \<Rightarrow> ('k, 'v) js_map" where
  "map_delete k m = AList.delete k m"

definition map_values :: "('k, 'v) js_map \<Rightarrow> 'v list" where
  "map_values m = map snd m"

definition map_ok :: "('k, 'v) js_map \<Rightarrow> bool" where
  "map_ok m = distinct (map fst m)"

text \<open>\<open>s.startsWith(p)\<close>\<close>

definition startsWith :: "string \<Rightarrow> string \<Rightarrow> bool" where
  "startsWith s p = (take (length p) s = p)"

text \<open>\<open>s.split(c)\<close> for a separator of one character: never the empty array.\<close>

fun split :: "char \<Rightarrow> string \<Rightarrow> string list" where
  "split c [] = [[]]"
| "split c (x # xs) =
     (if x = c then [] # split c xs
      else (case split c xs of w # ws \<Rightarrow> (x # w) # ws | [] \<Rightarrow> [[x]]))"

text \<open>\<open>xs[1]\<close>: the second element, \<open>None\<close> for JavaScript's \<open>undefined\<close>.\<close>

fun at1 :: "'a list \<Rightarrow> 'a option" where
  "at1 (x # y # ys) = Some y"
| "at1 xs = None"

section \<open>Discovery service (electron/MDNSService.ts)\<close>

record Peer =
  peer_id :: string
  peer_name :: string
  ip :: string
  port :: int
  fingerprint :: string
  lastSeen :: int

text \<open>
  A resource record as \<open>multicast-dns\<close> decodes it: the shape of \<open>data\<close> is fixed by
  the record's type, so the type is read off the constructor.
\<close>

datatype rdata =
    PtrData string
  | SrvData int string
  | TxtData "string list"
  | AData string
  | OtherData

datatype rrtype = PTR | SRV | TXT | ARec | OtherType

fun type_of :: "rdata \<Rightarrow> rrtype" where
  "type_of (PtrData d) = PTR"
| "type_of (SrvData p t) = SRV"
| "type_of (TxtData ds) = TXT"
| "type_of (AData a) = ARec"
| "type_of OtherData = OtherType"

datatype rr = RR (rr_name: string) (rr_data: rdata)

record question =
  q_name :: string
  q_type :: rrtype

record packet =
  questions :: "question list"
  answers :: "rr list"
  additionals :: "rr list"

text \<open>
  The state of one \<open>MDNSService\<close> object. \<open>sent\<close> collects what the object hands to
  \<open>mDNS.respond\<close> and \<open>mDNS.query\<close>; log lines are left out.
\<close>

record MDNSService =
  peers :: "(string, Peer) js_map"
  myId :: string
  myName :: string
  myPort :: int
  myFingerprint :: string
  sent :: "packet list"

definition serviceName :: string where
  "serviceName = ''securexfer.local''"

text \<open>The constructor; the UUID and the host name are read from the environment.\<close>

definition new_MDNSService :: "string \<Rightarrow> string \<Rightarrow> int \<Rightarrow> string \<Rightarrow> MDNSService" where
  "new_MDNSService uuid hostname p fp =
     \<lparr>peers = [], myId = uuid, myName = hostname, myPort = p, myFingerprint = fp, sent = []\<rparr>"

text \<open>\<open>announce()\<close>; the argument is what \<open>getLocalIp()\<close> returns at the call.\<close>

definition announce :: "string \<Rightarrow> MDNSService \<Rightarrow> MDNSService" where
  "announce localIp s =
     s\<lparr>sent := sent s @
        [\<lparr>questions = [],
          answers = [RR serviceName (PtrData (myName s @ ''.'' @ serviceName))],
          additionals =
            [RR (myName s @ ''.'' @ serviceName) (SrvData (myPort s) (myName s @ ''.local'')),
             RR (myName s @ ''.'' @ serviceName)
                (TxtData [''id='' @ myId s, ''name='' @ myName s, ''fp='' @ myFingerprint s]),
             RR (myName s @ ''.local'') (AData localIp)]\<rparr>]\<rparr>"

definition discover :: "MDNSService \<Rightarrow> MDNSService" where
  "discover s =
     s\<lparr>sent := sent s @
        [\<lparr>questions = [\<lparr>q_name = serviceName, q_type = PTR\<rparr>], answers = [], additionals = []\<rparr>]\<rparr>"

text \<open>The \<open>query\<close> listener.\<close>

definition handleQuery :: "packet \<Rightarrow> string \<Rightarrow> MDNSService \<Rightarrow> MDNSService" where
  "handleQuery query localIp s =
     (if list_ex (\<lambda>q. q_name q = serviceName) (questions query) then announce localIp s else s)"

text \<open>
  The loop of the \<open>response\<close> listener over \<open>this.peers.entries()\<close>: an entry with the
  new peer's address and another id is deleted from the table.
\<close>

fun evictDuplicates ::
  "string \<Rightarrow> string \<Rightarrow> (string \<times> Peer) list \<Rightarrow> (string, Peer) js_map \<Rightarrow> (string, Peer) js_map"
where
  "evictDuplicates newPeerIp newId [] m = m"
| "evictDuplicates newPeerIp newId ((existingId, existingPeer) # es) m =
     evictDuplicates newPeerIp newId es
       (if ip existingPeer = newPeerIp \<and> existingId \<noteq> newId then map_delete existingId m else m)"

text \<open>
  \<open>response.additionals.find(a => a.type === 'TXT')\<close> and its two siblings, each
  giving the \<open>data\<close> of the record found.
\<close>

definition findTXT :: "rr list \<Rightarrow> string list option" where
  "findTXT rs =
     (case find (\<lambda>a. type_of (rr_data a) = TXT) rs of
        Some (RR n (TxtData ds)) \<Rightarrow> Some ds
      | _ \<Rightarrow> None)"

definition findSRV :: "rr list \<Rightarrow> (int \<times> string) option" where
  "findSRV rs =
     (case find (\<lambda>a. type_of (rr_data a) = SRV) rs of
        Some (RR n (SrvData p t)) \<Rightarrow> Some (p, t)
      | _ \<Rightarrow> None)"

definition findA :: "rr list \<Rightarrow> string option" where
  "findA rs =
     (case find (\<lambda>a. type_of (rr_data a) = ARec) rs of
        Some (RR n (AData a)) \<Rightarrow> Some a
      | _ \<Rightarrow> None)"

text \<open>\<open>d.toString().split('=')[1]\<close>\<close>

definition fieldValue :: "string \<Rightarrow> string option" where
  "fieldValue d = at1 (split (CHR ''='') d)"

text \<open>
  The \<open>response\<close> listener, in its two halves. \<open>parseResponse\<close> is the reading of the
  packet (the conditions \<open>ptr\<close>, \<open>txt && srv && aRecord\<close> and
  \<open>idData && nameData && fpData\<close>, left to right, and the three \<open>split\<close>s): it gives
  the id, name, fingerprint, address and port the packet advertises, or \<open>None\<close> where the
  listener does nothing. \<open>fieldValue\<close> is never \<open>None\<close> on a token that starts with
  \<open>id=\<close>, \<open>name=\<close> or \<open>fp=\<close> (lemma \<open>fieldValue_startsWith\<close>), so the last
  three \<open>None\<close> branches are never taken.
\<close>

definition parseResponse :: "packet \<Rightarrow> (string \<times> string \<times> string \<times> string \<times> int) option" where
  "parseResponse response =
     (case find (\<lambda>a. rr_name a = serviceName \<and> type_of (rr_data a) = PTR) (answers response) of
        None \<Rightarrow> None
      | Some ptr \<Rightarrow>
     (case findTXT (additionals response) of None \<Rightarrow> None | Some txt \<Rightarrow>
     (case findSRV (additionals response) of None \<Rightarrow> None | Some (srvPort, srvTarget) \<Rightarrow>
     (case findA (additionals response) of None \<Rightarrow> None | Some newPeerIp \<Rightarrow>
     (case find (\<lambda>d. startsWith d ''id='') txt of None \<Rightarrow> None | Some idData \<Rightarrow>
     (case find (\<lambda>d. startsWith d ''name='') txt of None \<Rightarrow> None | Some nameData \<Rightarrow>
     (case find (\<lambda>d. startsWith d ''fp='') txt of None \<Rightarrow> None | Some fpData \<Rightarrow>
     (case fieldValue idData of None \<Rightarrow> None | Some newId \<Rightarrow>
     (case fieldValue nameData of None \<Rightarrow> None | Some newName \<Rightarrow>
     (case fieldValue fpData of None \<Rightarrow> None | Some newFp \<Rightarrow>
        Some (newId, newName, newFp, newPeerIp, srvPort)))))))))))"

text \<open>
  The second half is the body of \<open>if (id !== this.myId)\<close>; \<open>now\<close> is \<open>Date.now()\<close>
  at the call.
\<close>

definition storePeer ::
  "string \<Rightarrow> string \<Rightarrow> string \<Rightarrow> string \<Rightarrow> int \<Rightarrow> int \<Rightarrow> MDNSService \<Rightarrow> MDNSService"
where
  "storePeer newId newName newFp newPeerIp srvPort now s =
     (if newId \<noteq> myId s then
        s\<lparr>peers :=
            map_set newId
              \<lparr>peer_id = newId, peer_name = newName, ip = newPeerIp,
               port = srvPort, fingerprint = newFp, lastSeen = now\<rparr>
              (evictDuplicates newPeerIp newId (peers s) (peers s))\<rparr>
      else s)"

definition handleResponse :: "packet \<Rightarrow> int \<Rightarrow> MDNSService \<Rightarrow> MDNSService" where
  "handleResponse response now s =
     (case parseResponse response of
        None \<Rightarrow> s
      | Some (newId, newName, newFp, newPeerIp, srvPort) \<Rightarrow>
          storePeer newId newName newFp newPeerIp srvPort now s)"

text \<open>The sweep of \<open>getPeers()\<close> over \<open>this.peers.entries()\<close>.\<close>

fun sweep :: "int \<Rightarrow> (string \<times> Peer) list \<Rightarrow> (string, Peer) js_map \<Rightarrow> (string, Peer) js_map" where
  "sweep now [] m = m"
| "sweep now ((k, peer) # es) m =
     sweep now es (if now - lastSeen peer > 30000 then map_delete k m else m)"

text \<open>\<open>getPeers()\<close> returns the array and leaves the swept table in the object.\<close>

definition getPeers :: "int \<Rightarrow> MDNSService \<Rightarrow> Peer list \<times> MDNSService" where
  "getPeers now s =
     (let s' = s\<lparr>peers := sweep now (peers s) (peers s)\<rparr> in (map_values (peers s'), s'))"

text \<open>What can happen to the object, and a run of such events.\<close>

datatype event =
    QueryEv packet string
  | ResponseEv packet int
  | AnnounceEv string
  | DiscoverEv
  | GetPeersEv int

fun handle :: "event \<Rightarrow> MDNSService \<Rightarrow> MDNSService" where
  "handle (QueryEv q localIp) s = handleQuery q localIp s"
| "handle (ResponseEv r now) s = handleResponse r now s"
| "handle (AnnounceEv localIp) s = announce localIp s"
| "handle DiscoverEv s = discover s"
| "handle (GetPeersEv now) s = snd (getPeers now s)"

definition run :: "event list \<Rightarrow> MDNSService \<Rightarrow> MDNSService" where
  "run evs s = fold handle evs s"

text \<open>
  What every table built by the listener satisfies: distinct keys, no key equal to the
  object's own id, and each record filed under its own id.
\<close>

definition table_inv :: "MDNSService \<Rightarrow> bool" where
  "table_inv s =
     (map_ok (peers s) \<and> list_all (\<lambda>e. fst e \<noteq> myId s \<and> peer_id (snd e) = fst e) (peers s))"

section \<open>SHA-256 and hexadecimal digests (Node's crypto module)\<close>

text \<open>
  \<open>crypto.createHash('sha256').update(x).digest('hex')\<close> is the SHA-256 of FIPS 180-4,
  written as lowercase hexadecimal. It is a function of Node, not of this repository; it is
  written out here so that digests of concrete inputs can be computed. A byte string is a
  \<open>string\<close>, one \<open>char\<close> for each byte; a 32-bit word is an \<open>int\<close> below \<open>2 ^ 32\<close>.
\<close>

text \<open>The low 32 bits of a sum.\<close>

definition m32 :: "int \<Rightarrow> int" where
  "m32 x = x - 4294967296 * drop_bit 32 x"

text \<open>
  Rotating a 32-bit word to the right by \<open>n\<close> places. The mask \<open>low = 2 ^ n - 1\<close> and the
  factor \<open>high = 2 ^ (32 - n)\<close> are written out at each use.
\<close>

definition rotr :: "nat \<Rightarrow> int \<Rightarrow> int \<Rightarrow> int \<Rightarrow> int" where
  "rotr n low high x = drop_bit n x + (x AND low) * high"

definition shr :: "nat \<Rightarrow> int \<Rightarrow> int" where
  "shr n x = drop_bit n x"

definition Ch :: "int \<Rightarrow> int \<Rightarrow> int \<Rightarrow> int" where
  "Ch x y z = z XOR (x AND (y XOR z))"

definition Maj :: "int \<Rightarrow> int \<Rightarrow> int \<Rightarrow> int" where
  "Maj x y z = (x AND y) XOR (x AND z) XOR (y AND z)"

definition Sigma0 :: "int \<Rightarrow> int" where
  "Sigma0 x = rotr 2 3 1073741824 x XOR rotr 13 8191 524288 x XOR rotr 22 4194303 1024 x"

definition Sigma1 :: "int \<Rightarrow> int" where
  "Sigma1 x = rotr 6 63 67108864 x XOR rotr 11 2047 2097152 x XOR rotr 25 33554431 128 x"

definition sigma0 :: "int \<Rightarrow> int" where
  "sigma0 x = rotr 7 127 33554432 x XOR rotr 18 262143 16384 x XOR shr 3 x"

definition sigma1 :: "int \<Rightarrow> int" where
  "sigma1 x = rotr 17 131071 32768 x XOR rotr 19 524287 8192 x XOR shr 10 x"

text \<open>The round constants and the initial hash value, in decimal.\<close>

definition K256 :: "int list" where
  "K256 =
    [1116352408, 1899447441, 3049323471, 3921009573, 961987163, 1508970993,
     2453635748, 2870763221, 3624381080, 310598401, 607225278, 1426881987,
     1925078388, 2162078206, 2614888103, 3248222580, 3835390401, 4022224774,
     264347078, 604807628, 770255983, 1249150122, 1555081692, 1996064986,
     2554220882, 2821834349, 2952996808, 3210313671, 3336571891, 3584528711,
     113926993, 338241895, 666307205, 773529912, 1294757372, 1396182291,
     1695183700, 1986661051, 2177026350, 2456956037, 2730485921, 2820302411,
     3259730800, 3345764771, 3516065817, 3600352804, 4094571909, 275423344,
     430227734, 506948616, 659060556, 883997877, 958139571, 1322822218,
     1537002063, 1747873779, 1955562222, 2024104815, 2227730452, 2361852424,
     2428436474, 2756734187, 3204031479, 3329325298]"

type_synonym sha_state = "int \<times> int \<times> int \<times> int \<times> int \<times> int \<times> int \<times> int"

definition H0 :: sha_state where
  "H0 = (1779033703, 3144134277, 1013904242, 2773480762,
         1359893119, 2600822924, 528734635, 1541459225)"

text \<open>The message schedule; the list holds the words computed so far, the newest first.\<close>

fun schedule :: "nat \<Rightarrow> int list \<Rightarrow> int list" where
  "schedule 0 ws = ws"
| "schedule (Suc n) ws =
     schedule n (m32 (sigma1 (ws ! 1) + ws ! 6 + sigma0 (ws ! 14) + ws ! 15) # ws)"

text \<open>One round: the two temporary words, and the eight working variables after it.\<close>

definition T1 :: "int \<Rightarrow> int \<Rightarrow> int \<Rightarrow> int \<Rightarrow> int \<Rightarrow> int \<Rightarrow> int" where
  "T1 e f g h k w = h + Sigma1 e + Ch e f g + k + w"

definition T2 :: "int \<Rightarrow> int \<Rightarrow> int \<Rightarrow> int" where
  "T2 a b c = Sigma0 a + Maj a b c"

definition next_state ::
  "int \<Rightarrow> int \<Rightarrow> int \<Rightarrow> int \<Rightarrow> int \<Rightarrow> int \<Rightarrow> int \<Rightarrow> int \<Rightarrow> int \<Rightarrow> sha_state" where
  "next_state t1 t2 a b c d e f g = (m32 (t1 + t2), a, b, c, m32 (d + t1), e, f, g)"

fun round1 :: "int \<Rightarrow> int \<Rightarrow> sha_state \<Rightarrow> sha_state" where
  "round1 k w (a, b, c, d, e, f, g, h) = next_state (T1 e f g h k w) (T2 a b c) a b c d e f g"

fun rounds :: "int list \<Rightarrow> int list \<Rightarrow> sha_state \<Rightarrow> sha_state" where
  "rounds (k # ks) (w # ws) st = rounds ks ws (round1 k w st)"
| "rounds ks ws st = st"

fun add_state :: "sha_state \<Rightarrow> sha_state \<Rightarrow> sha_state" where
  "add_state (a, b, c, d, e, f, g, h) (a', b', c', d', e', f', g', h') =
     (m32 (a + a'), m32 (b + b'), m32 (c + c'), m32 (d + d'),
      m32 (e + e'), m32 (f + f'), m32 (g + g'), m32 (h + h'))"

fun be32 :: "int list \<Rightarrow> int list" where
  "be32 (a # b # c # d # xs) = (((a * 256 + b) * 256 + c) * 256 + d) # be32 xs"
| "be32 xs = []"

definition compress :: "sha_state \<Rightarrow> int list \<Rightarrow> sha_state" where
  "compress st block = add_state st (rounds K256 (rev (schedule 48 (rev (be32 block)))) st)"

fun sha_blocks :: "sha_state \<Rightarrow> nat \<Rightarrow> int list \<Rightarrow> sha_state" where
  "sha_blocks st 0 bs = st"
| "sha_blocks st (Suc n) bs = sha_blocks (compress st (take 64 bs)) n (drop 64 bs)"

definition pad :: "int list \<Rightarrow> int list" where
  "pad bs =
     (let l = int (length bs); z = (55 - l) mod 64; bits = l * 8
      in bs @ [128] @ replicate (nat z) 0 @
         map (\<lambda>i. (bits div 256 ^ i) mod 256) [7, 6, 5, 4, 3, 2, 1, 0])"

definition hexdigit :: "int \<Rightarrow> char" where
  "hexdigit d = ''0123456789abcdef'' ! nat d"

definition hex32 :: "int \<Rightarrow> string" where
  "hex32 w = map (\<lambda>i. hexdigit ((w div 16 ^ i) mod 16)) [7, 6, 5, 4, 3, 2, 1, 0]"

definition sha256_hex :: "string \<Rightarrow> string" where
  "sha256_hex s =
     (let p = pad (map (\<lambda>c. int (of_char c)) s)
      in case sha_blocks H0 (length p div 64) p of
           (a, b, c, d, e, f, g, h) \<Rightarrow> concat (map hex32 [a, b, c, d, e, f, g, h]))"

text \<open>\<open>s.toUpperCase()\<close> on ASCII text, which a hexadecimal digest is.\<close>

definition upper_char :: "char \<Rightarrow> char" where
  "upper_char c =
     (if (97::nat) \<le> of_char c \<and> of_char c \<le> (122::nat) then char_of (of_char c - (32::nat)) else c)"

definition toUpperCase :: "string \<Rightarrow> string" where
  "toUpperCase s = map upper_char s"

section \<open>PEM text of a certificate\<close>

text \<open>
  \<open>selfsigned\<close> hands the certificate over as PEM text: a line
  \<open>-----BEGIN CERTIFICATE-----\<close>, the base64 of the DER bytes in lines of 64 characters,
  and a line \<open>-----END CERTIFICATE-----\<close> (RFC 7468). The HTTPS server is given that text;
  what a client sees of the certificate, \<open>cert.raw\<close>, is the DER bytes inside it. The decoding
  is Node's and OpenSSL's, not this repository's.
\<close>

definition newline :: char where
  "newline = CHR 0x0A"

definition b64val :: "char \<Rightarrow> int option" where
  "b64val c =
     (let n = (of_char c :: int) in
      if 65 \<le> n \<and> n \<le> 90 then Some (n - 65)
      else if 97 \<le> n \<and> n \<le> 122 then Some (n - 71)
      else if 48 \<le> n \<and> n \<le> 57 then Some (n + 4)
      else if n = 43 then Some 62
      else if n = 47 then Some 63
      else None)"

fun sextets :: "string \<Rightarrow> int list" where
  "sextets [] = []"
| "sextets (c # cs) = (case b64val c of None \<Rightarrow> sextets cs | Some v \<Rightarrow> v # sextets cs)"

fun unbase64 :: "int list \<Rightarrow> int list" where
  "unbase64 (a # b # c # d # rest) =
     [a * 4 + b div 16, (b mod 16) * 16 + c div 4, (c mod 4) * 64 + d] @ unbase64 rest"
| "unbase64 [a, b, c] = [a * 4 + b div 16, (b mod 16) * 16 + c div 4]"
| "unbase64 [a, b] = [a * 4 + b div 16]"
| "unbase64 xs = []"

definition der_of_pem :: "string \<Rightarrow> string" where
  "der_of_pem pem =
     map char_of
       (unbase64 (sextets (concat (filter (\<lambda>l. \<not> startsWith l ''-----'') (split newline pem)))))"

text \<open>A text of several lines, each ended by a newline.\<close>

fun unlines :: "string list \<Rightarrow> string" where
  "unlines [] = []"
| "unlines (l # ls) = l @ newline # unlines ls"

section \<open>Identity (generateCerts in electron/main.ts)\<close>

text \<open>What \<open>selfsigned.generate\<close> resolves to.\<close>

record pems =
  pem_private :: string
  pem_public :: string
  pem_cert :: string

text \<open>The module variables \<open>myKeys\<close> and \<open>myFingerprint\<close> after a successful run.\<close>

record identity =
  myKeys_key :: string
  myKeys_cert :: string
  myFingerprint_value :: string

text \<open>
  \<open>generateCerts()\<close>. The argument is the outcome of \<open>selfsigned.generate\<close>: \<open>Inl\<close> the
  error it throws, which \<open>generateCerts\<close> throws again, or \<open>Inr\<close> the PEM texts.
\<close>

definition generateCerts :: "string + pems \<Rightarrow> string + identity" where
  "generateCerts generated =
     (case generated of
        Inl err \<Rightarrow> Inl err
      | Inr p \<Rightarrow>
          (let certHash = toUpperCase (sha256_hex (pem_cert p))
           in Inr \<lparr>myKeys_key = pem_private p, myKeys_cert = pem_cert p,
                   myFingerprint_value = certHash\<rparr>))"

section \<open>Fingerprint check of an upload (start-upload in electron/main.ts)\<close>

text \<open>
  \<open>checkServerIdentity\<close> of the agent: \<open>raw\<close> is \<open>cert.raw\<close>; the result is the message
  of the \<open>Error\<close> returned, or \<open>None\<close> for \<open>undefined\<close>.
\<close>

definition checkServerIdentity :: "string \<Rightarrow> string \<Rightarrow> string option" where
  "checkServerIdentity expectedFingerprint raw =
     (let serverFp = toUpperCase (sha256_hex raw)
      in if serverFp \<noteq> expectedFingerprint then Some ''Fingerprint mismatch!'' else None)"

section \<open>Paths (Node's path module, POSIX flavour)\<close>

text \<open>
  \<open>path.join(...)\<close> joins its non-empty arguments with \<open>/\<close> and normalises the result:
  empty segments and \<open>.\<close> are dropped, and \<open>..\<close> removes the segment before it; at the
  root of an absolute path \<open>..\<close> is dropped, in front of a relative path it is kept. This
  is Node's function, not this repository's.
\<close>

fun normalizeSegments :: "bool \<Rightarrow> string list \<Rightarrow> string list \<Rightarrow> string list" where
  "normalizeSegments allowAboveRoot [] res = rev res"
| "normalizeSegments allowAboveRoot (seg # segs) res =
     (if seg = [] \<or> seg = ''.'' then normalizeSegments allowAboveRoot segs res
      else if seg = ''..'' then
        (case res of
           [] \<Rightarrow> normalizeSegments allowAboveRoot segs (if allowAboveRoot then [''..''] else [])
         | lastSeg # below \<Rightarrow>
             if lastSeg = ''..'' then normalizeSegments allowAboveRoot segs (''..'' # res)
             else normalizeSegments allowAboveRoot segs below)
      else normalizeSegments allowAboveRoot segs (seg # res))"

fun joinWith :: "char \<Rightarrow> string list \<Rightarrow> string" where
  "joinWith c [] = []"
| "joinWith c [s] = s"
| "joinWith c (s # t # ss) = s @ c # joinWith c (t # ss)"

definition path_normalize :: "string \<Rightarrow> string" where
  "path_normalize p =
     (if p = [] then ''.''
      else
        (let isAbsolute = (hd p = CHR ''/'');
             trailingSeparator = (last p = CHR ''/'');
             body = joinWith (CHR ''/'') (normalizeSegments (\<not> isAbsolute) (split (CHR ''/'') p) [])
         in if body = [] then (if isAbsolute then ''/'' else if trailingSeparator then ''./'' else ''.'')
            else (if isAbsolute then ''/'' else []) @ body @ (if trailingSeparator then ''/'' else [])))"

definition path_join :: "string list \<Rightarrow> string" where
  "path_join args =
     (let joined = joinWith (CHR ''/'') (filter (\<lambda>a. a \<noteq> []) args)
      in if joined = [] then ''.'' else path_normalize joined)"

text \<open>
  A path lies within a directory when the directory's segments are the first segments of the
  path's segments; both paths are normalised and absolute.
\<close>

definition segments :: "string \<Rightarrow> string list" where
  "segments p = filter (\<lambda>s. s \<noteq> []) (split (CHR ''/'') p)"

definition within :: "string \<Rightarrow> string \<Rightarrow> bool" where
  "within dir p = (take (length (segments dir)) (segments p) = segments dir)"

section \<open>Transfer server (class TransferServer)\<close>

record TransferRequest =
  req_id :: string
  req_senderName :: string
  req_fileName :: string
  req_fileSize :: nat
  req_fileType :: string
  req_ip :: string
  req_fileCount :: "nat option"
  req_totalSize :: "nat option"

text \<open>
  A value of \<open>activeDecisions\<close> is the closure made by the \<open>request-transfer\<close> listener.
  It is determined by the connection it was made on and by \<open>data.id\<close>.
\<close>

datatype callback = Callback nat string

text \<open>What the server sends to the window.\<close>

datatype win_message =
    Incoming_transfer TransferRequest
  | Cancel_transfer string

text \<open>
  The state of the server: the decision map, the variable \<open>pendingTransferId\<close> of each
  connection, the \<open>transfer-decision\<close> messages emitted (connection, id, allowed), whether
  a window is set, and the messages sent to it.
\<close>

record TransferServer =
  activeDecisions :: "(string, callback) js_map"
  pendingTransferId :: "nat \<Rightarrow> string option"
  emitted :: "(nat \<times> string \<times> bool) list"
  win :: bool
  webContents :: "win_message list"

text \<open>The constructor and \<open>setWindow\<close>.\<close>

definition new_TransferServer :: TransferServer where
  "new_TransferServer =
     \<lparr>activeDecisions = [], pendingTransferId = (\<lambda>sock. None), emitted = [], win = False,
      webContents = []\<rparr>"

definition setWindow :: "TransferServer \<Rightarrow> TransferServer" where
  "setWindow s = s\<lparr>win := True\<rparr>"

definition win_send :: "win_message \<Rightarrow> TransferServer \<Rightarrow> TransferServer" where
  "win_send msg s = (if win s then s\<lparr>webContents := webContents s @ [msg]\<rparr> else s)"

text \<open>The \<open>request-transfer\<close> listener of connection \<open>sock\<close>.\<close>

definition on_request_transfer :: "nat \<Rightarrow> TransferRequest \<Rightarrow> TransferServer \<Rightarrow> TransferServer" where
  "on_request_transfer sock data s =
     (let s1 = s\<lparr>pendingTransferId := (pendingTransferId s)(sock := Some (req_id data))\<rparr>;
          s2 = win_send (Incoming_transfer data) s1
      in s2\<lparr>activeDecisions :=
              map_set (req_id data) (Callback sock (req_id data)) (activeDecisions s2)\<rparr>)"

text \<open>Calling the closure with \<open>allowed\<close>.\<close>

fun call :: "callback \<Rightarrow> bool \<Rightarrow> TransferServer \<Rightarrow> TransferServer" where
  "call (Callback sock tid) allowed s =
     (let s1 = s\<lparr>emitted := emitted s @ [(sock, tid, allowed)]\<rparr>;
          s2 = s1\<lparr>pendingTransferId := (pendingTransferId s1)(sock := None)\<rparr>
      in if \<not> allowed then s2\<lparr>activeDecisions := map_delete tid (activeDecisions s2)\<rparr> else s2)"

text \<open>The \<open>cancel-transfer\<close> listener of connection \<open>sock\<close>.\<close>

definition on_cancel_transfer :: "nat \<Rightarrow> string \<Rightarrow> TransferServer \<Rightarrow> TransferServer" where
  "on_cancel_transfer sock tid s =
     (if map_has (activeDecisions s) tid then
        (let s1 = s\<lparr>activeDecisions := map_delete tid (activeDecisions s)\<rparr>;
             s2 = win_send (Cancel_transfer tid) s1
         in s2\<lparr>pendingTransferId := (pendingTransferId s2)(sock := None)\<rparr>)
      else s)"

text \<open>The \<open>disconnect\<close> listener of connection \<open>sock\<close>; the empty string is falsy.\<close>

definition on_disconnect :: "nat \<Rightarrow> TransferServer \<Rightarrow> TransferServer" where
  "on_disconnect sock s =
     (case pendingTransferId s sock of
        None \<Rightarrow> s
      | Some tid \<Rightarrow>
          if tid \<noteq> [] \<and> map_has (activeDecisions s) tid then
            win_send (Cancel_transfer tid) (s\<lparr>activeDecisions := map_delete tid (activeDecisions s)\<rparr>)
          else s)"

definition handleDecision :: "string \<Rightarrow> bool \<Rightarrow> TransferServer \<Rightarrow> TransferServer" where
  "handleDecision transferId allowed s =
     (case map_get (activeDecisions s) transferId of
        None \<Rightarrow> s
      | Some cb \<Rightarrow>
          (let s1 = call cb allowed s
           in s1\<lparr>activeDecisions := map_delete transferId (activeDecisions s1)\<rparr>))"

datatype server_event =
    Request_transfer nat TransferRequest
  | Cancel_transfer_from nat string
  | Disconnect nat
  | Decision string bool

fun server_handle :: "server_event \<Rightarrow> TransferServer \<Rightarrow> TransferServer" where
  "server_handle (Request_transfer sock data) s = on_request_transfer sock data s"
| "server_handle (Cancel_transfer_from sock tid) s = on_cancel_transfer sock tid s"
| "server_handle (Disconnect sock) s = on_disconnect sock s"
| "server_handle (Decision tid allowed) s = handleDecision tid allowed s"

fun server_run :: "server_event list \<Rightarrow> TransferServer \<Rightarrow> TransferServer" where
  "server_run [] s = s"
| "server_run (ev # evs) s = server_run evs (server_handle ev s)"

text \<open>An event that files a decision under \<open>tid\<close>.\<close>

fun registers :: "string \<Rightarrow> server_event \<Rightarrow> bool" where
  "registers tid (Request_transfer sock data) = (req_id data = tid)"
| "registers tid ev = False"

text \<open>
  The \<open>/upload\<close> route: the path handed to \<open>fs.createWriteStream\<close>, from the downloads
  directory and the \<open>filename\<close> parameter of the query.
\<close>

definition upload_savePath :: "string \<Rightarrow> string \<Rightarrow> string" where
  "upload_savePath downloadsPath rawFileName = path_join [downloadsPath, rawFileName]"

section \<open>Sending (handleSend in src/App.tsx, start-upload in electron/main.ts)\<close>














section \<open>Vocabulary of the statements\<close>

text \<open>Two texts that differ at most in the case of their ASCII letters.\<close>

definition equal_ignoring_case :: "string \<Rightarrow> string \<Rightarrow> bool" where
  "equal_ignoring_case a b = (toUpperCase a = toUpperCase b)"






section \<open>Example inputs\<close>

text \<open>A response as \<open>announce\<close> of another instance sends it, for a given id and address.\<close>

definition example_response :: "string \<Rightarrow> string \<Rightarrow> packet" where
  "example_response idv ipv =
     \<lparr>questions = [],
      answers = [RR ''securexfer.local'' (PtrData ''h.securexfer.local'')],
      additionals =
        [RR ''h.securexfer.local'' (SrvData 4000 ''h.local''),
         RR ''h.securexfer.local'' (TxtData [''id='' @ idv, ''name=h'', ''fp=AB12'']),
         RR ''h.local'' (AData ipv)]\<rparr>"

text \<open>The same response without its A record.\<close>

definition example_response_no_A :: packet where
  "example_response_no_A =
     \<lparr>questions = [],
      answers = [RR ''securexfer.local'' (PtrData ''h.securexfer.local'')],
      additionals =
        [RR ''h.securexfer.local'' (SrvData 4000 ''h.local''),
         RR ''h.securexfer.local'' (TxtData [''id=b'', ''name=h'', ''fp=AB12''])]\<rparr>"

definition example_peer :: "string \<Rightarrow> string \<Rightarrow> int \<Rightarrow> Peer" where
  "example_peer idv ipv t =
     \<lparr>peer_id = idv, peer_name = ''h'', ip = ipv, port = 4000, fingerprint = ''AB12'',
      lastSeen = t\<rparr>"

definition example_service :: "(string, Peer) js_map \<Rightarrow> MDNSService" where
  "example_service m =
     \<lparr>peers = m, myId = ''me'', myName = ''host'', myPort = 9, myFingerprint = ''FF'', sent = []\<rparr>"

text \<open>
  A certificate as \<open>generateCerts\<close> asks for it (self-signed, RSA 2048, common name
  \<open>securexfer.local\<close>, 365 days), in PEM.
\<close>

definition example_pem :: string where
  "example_pem =
     unlines
      [''-----BEGIN CERTIFICATE-----'',
       ''MIIDFzCCAf+gAwIBAgIUUu1ea8P5yE8Znul3h+XcIVI1juIwDQYJKoZIhvcNAQEL'',
       ''BQAwGzEZMBcGA1UEAwwQc2VjdXJleGZlci5sb2NhbDAeFw0yNjExMDIxNDI2MDNa'',
       ''Fw0yNzExMDIxNDI2MDNaMBsxGTAXBgNVBAMMEHNlY3VyZXhmZXIubG9jYWwwggEi'',
       ''MA0GCSqGSIb3DQEBAQUAA4IBDwAwggEKAoIBAQC82PgdEUu4ASgUwncQNdgTdfRc'',
       ''Wp06Ue5xpj15+lhF4mZFd+VtP3nVbFs7jXB/ijXZUK47entHfeEadp16SvKYNsaD'',
       ''rkoGgplKJCdpVf/53I5V0i98CtG3FsLVBnI01jsRDOsitiUoOJHK8Qcr1lIbMiJV'',
       ''iqfq/SXwsUmasN4fAp4xkfOscCS58/HqC7HPvGLi9D5fbQ48G5fp715iZPxpqkIB'',
       ''aljnp6orlQ41WjTZfl4SXpso+yat9PATmU02K6p8z61d6yyJ58ZFGGxjBWt8Fffw'',
       ''aVLbEIArc0d7i9k6ZqhzxBf6Pv7SxFn5tXmIG0r/nnopOXDacdu2/G9mUDB/AgMB'',
       ''AAGjUzBRMB0GA1UdDgQWBBSxf/GK7r3IhDEDBrZ87PLWwAbVJjAfBgNVHSMEGDAW'',
       ''gBSxf/GK7r3IhDEDBrZ87PLWwAbVJjAPBgNVHRMBAf8EBTADAQH/MA0GCSqGSIb3'',
       ''DQEBCwUAA4IBAQAhFrVhPT0FkKkyeKTvHjYHHk89fgm4GfBPiRS2pwEe39gq/4Jp'',
       ''DEvWFMzFkX/TquyBBPNS3KbNAR0dfi9HIPxvI84yPOnon7f6CAGMPqe42r+LpSAm'',
       ''45fG9zXefQo9Y79hD3VPxz+Wql/OhGrE6FSIsfYozN8Cu+WXIc15MdhsM34tbTGr'',
       ''cCdtHmKkf/jSkZLX7/U/RTQj0KxIaHOI3LyhSfO2PLvQNQ+frzXXTPnFGQ6N+MS0'',
       ''tOV6ybgFiO6xfzZTQ5Jm8N4it2Th9WqcAr/+88zvTGEn6aV3QeJyN+njwSvfmfBd'',
       ''hdnW0EFX8c3pJ3ss0wlJtaDhfE7jDFqYRj50'',
       ''-----END CERTIFICATE-----'']"

definition example_pems :: pems where
  "example_pems = \<lparr>pem_private = ''(private key)'', pem_public = ''(public key)'', pem_cert = example_pem\<rparr>"





text \<open>A server with a window and one request, \<open>t1\<close>, waiting for its decision.\<close>

definition example_request :: TransferRequest where
  "example_request =
     \<lparr>req_id = ''t1'', req_senderName = ''Sender'', req_fileName = ''a.txt'', req_fileSize = 100,
      req_fileType = [], req_ip = [], req_fileCount = Some 1, req_totalSize = Some 100\<rparr>"

definition example_server :: TransferServer where
  "example_server = on_request_transfer 1 example_request (setWindow new_TransferServer)"

section \<open>Properties of the discovery service\<close>

subsection \<open>The two loops as filters\<close>

lemma map_delete_filter: "map_delete k m = filter (\<lambda>e. fst e \<noteq> k) m"
  by (induction m) (auto simp: map_delete_def)

lemma sweep_filter:
  "sweep now es m = filter (\<lambda>e. \<not> (\<exists>p. (fst e, p) \<in> set es \<and> now - lastSeen p > 30000)) m"
proof (induction es arbitrary: m)
  case Nil
  then show ?case by simp
next
  case (Cons e es)
  obtain k p where e: "e = (k, p)" by (cases e)
  show ?case
    unfolding e sweep.simps Cons.IH
    by (auto simp: map_delete_filter intro!: filter_cong)
qed

lemma sweep_self:
  assumes "map_ok m"
  shows "sweep now m m = filter (\<lambda>e. \<not> now - lastSeen (snd e) > 30000) m"
proof -
  have "\<And>e. e \<in> set m \<Longrightarrow>
      (\<not> (\<exists>p. (fst e, p) \<in> set m \<and> now - lastSeen p > 30000)) = (\<not> now - lastSeen (snd e) > 30000)"
    using assms unfolding map_ok_def
    by (auto dest: eq_key_imp_eq_value)
  then show ?thesis
    unfolding sweep_filter by (intro filter_cong) auto
qed

lemma evictDuplicates_filter:
  "evictDuplicates X B es m =
     filter (\<lambda>e. \<not> (\<exists>p. (fst e, p) \<in> set es \<and> ip p = X \<and> fst e \<noteq> B)) m"
proof (induction es arbitrary: m)
  case Nil
  then show ?case by simp
next
  case (Cons e es)
  obtain k p where e: "e = (k, p)" by (cases e)
  show ?case
    unfolding e evictDuplicates.simps Cons.IH
    by (auto simp: map_delete_filter intro!: filter_cong)
qed

lemma evictDuplicates_self:
  assumes "map_ok m"
  shows "evictDuplicates X B m m = filter (\<lambda>e. \<not> (ip (snd e) = X \<and> fst e \<noteq> B)) m"
proof -
  have "\<And>e. e \<in> set m \<Longrightarrow>
      (\<not> (\<exists>p. (fst e, p) \<in> set m \<and> ip p = X \<and> fst e \<noteq> B)) = (\<not> (ip (snd e) = X \<and> fst e \<noteq> B))"
    using assms unfolding map_ok_def
    by (auto dest: eq_key_imp_eq_value)
  then show ?thesis
    unfolding evictDuplicates_filter by (intro filter_cong) auto
qed

lemma map_ok_filter: "map_ok m \<Longrightarrow> map_ok (filter P m)"
  unfolding map_ok_def by (simp add: distinct_map_filter)

lemma map_ok_set: "map_ok m \<Longrightarrow> map_ok (map_set k v m)"
  unfolding map_ok_def map_set_def by (simp add: distinct_update)

subsection \<open>Staleness sweep\<close>

text \<open>
  C5. A call of \<open>getPeers()\<close> at time \<open>now\<close>: a record of the table with
  \<open>now - lastSeen > 30000\<close> is not in the returned list and its key is no longer in the
  table; a record with \<open>now - lastSeen \<le> 30000\<close> is in the returned list (and stays in
  the table). The keys of the table are distinct, as those of a \<open>Map\<close> are.
\<close>

theorem getPeers_sweeps:
  assumes "map_ok (peers s)" and "(k, p) \<in> set (peers s)"
  shows "(now - lastSeen p > 30000 \<longrightarrow>
            p \<notin> set (fst (getPeers now s)) \<and> map_get (peers (snd (getPeers now s))) k = None)
       \<and> (now - lastSeen p \<le> 30000 \<longrightarrow>
            p \<in> set (fst (getPeers now s)) \<and> map_get (peers (snd (getPeers now s))) k = Some p)"
proof -
  let ?m' = "filter (\<lambda>e. \<not> now - lastSeen (snd e) > 30000) (peers s)"
  have res: "fst (getPeers now s) = map snd ?m'" and tab: "peers (snd (getPeers now s)) = ?m'"
    using assms(1) by (simp_all add: getPeers_def Let_def map_values_def sweep_self)
  have ok: "distinct (map fst ?m')"
    using map_ok_filter[OF assms(1)] by (simp add: map_ok_def)
  show ?thesis
  proof (intro conjI impI)
    assume st: "now - lastSeen p > 30000"
    show "p \<notin> set (fst (getPeers now s))"
      using st unfolding res by auto
    have "k \<notin> fst ` set ?m'"
      using st assms unfolding map_ok_def by (auto dest: eq_key_imp_eq_value)
    then show "map_get (peers (snd (getPeers now s))) k = None"
      unfolding tab map_get_def by (simp add: map_of_eq_None_iff)
  next
    assume fr: "now - lastSeen p \<le> 30000"
    then have "(k, p) \<in> set ?m'" using assms(2) by auto
    then show "p \<in> set (fst (getPeers now s))"
      unfolding res by force
    show "map_get (peers (snd (getPeers now s))) k = Some p"
      unfolding tab map_get_def using ok \<open>(k, p) \<in> set ?m'\<close> by (rule map_of_is_SomeI)
  qed
qed

theorem getPeers_sweeps_witness:
  "map_ok (peers (example_service [(''a'', example_peer ''a'' ''10.0.0.1'' 1000)]))
   \<and> (''a'', example_peer ''a'' ''10.0.0.1'' 1000)
        \<in> set (peers (example_service [(''a'', example_peer ''a'' ''10.0.0.1'' 1000)]))
   \<and> (31001 - lastSeen (example_peer ''a'' ''10.0.0.1'' 1000) > 30000
          \<and> example_peer ''a'' ''10.0.0.1'' 1000
               \<notin> set (fst (getPeers 31001
                     (example_service [(''a'', example_peer ''a'' ''10.0.0.1'' 1000)])))
          \<and> map_get (peers (snd (getPeers 31001
                  (example_service [(''a'', example_peer ''a'' ''10.0.0.1'' 1000)])))) ''a'' = None)
   \<and> (31000 - lastSeen (example_peer ''a'' ''10.0.0.1'' 1000) \<le> 30000
          \<and> example_peer ''a'' ''10.0.0.1'' 1000
               \<in> set (fst (getPeers 31000
                     (example_service [(''a'', example_peer ''a'' ''10.0.0.1'' 1000)]))))"
proof -
  let ?s = "example_service [(''a'', example_peer ''a'' ''10.0.0.1'' 1000)]"
  let ?p = "example_peer ''a'' ''10.0.0.1'' 1000"
  have ok: "map_ok (peers ?s)"
    by (simp add: example_service_def map_ok_def)
  have mem: "(''a'', ?p) \<in> set (peers ?s)"
    by (simp add: example_service_def)
  have stale: "31001 - lastSeen ?p > 30000" and fresh: "31000 - lastSeen ?p \<le> 30000"
    by (simp_all add: example_peer_def)
  show ?thesis
    using ok mem stale fresh
      getPeers_sweeps [OF ok mem, of 31001] getPeers_sweeps [OF ok mem, of 31000]
    by simp
qed

subsection \<open>Reading a response\<close>

lemma length_split: "length (split c d) = Suc (length (filter (\<lambda>x. x = c) d))"
  by (induction d) (auto split: list.splits)

lemma at1_None_iff: "at1 xs = None \<longleftrightarrow> length xs < 2"
  by (cases xs rule: at1.cases) auto

lemma fieldValue_contains: "CHR ''='' \<in> set d \<Longrightarrow> fieldValue d \<noteq> None"
proof -
  assume "CHR ''='' \<in> set d"
  then have "filter (\<lambda>x. x = CHR ''='') d \<noteq> []"
    by (simp add: filter_empty_conv)
  then have "length (filter (\<lambda>x. x = CHR ''='') d) > 0" by simp
  then show ?thesis
    by (simp add: fieldValue_def at1_None_iff length_split)
qed

lemma fieldValue_startsWith:
  assumes "startsWith d ''id='' \<or> startsWith d ''name='' \<or> startsWith d ''fp=''"
  shows "fieldValue d \<noteq> None"
proof -
  have sub: "set p \<subseteq> set d" if "startsWith d p" for p
  proof -
    from that have "p = take (length p) d" by (simp add: startsWith_def)
    then have "set p = set (take (length p) d)" by simp
    then show ?thesis using set_take_subset by fast
  qed
  from assms consider "startsWith d ''id=''" | "startsWith d ''name=''" | "startsWith d ''fp=''"
    by blast
  then have "CHR ''='' \<in> set d"
  proof cases
    case 1
    from sub[OF this] show ?thesis by simp
  next
    case 2
    from sub[OF this] show ?thesis by simp
  next
    case 3
    from sub[OF this] show ?thesis by simp
  qed
  then show ?thesis by (rule fieldValue_contains)
qed

lemma findTXT_None:
  assumes "\<not> (\<exists>a \<in> set rs. type_of (rr_data a) = TXT)"
  shows "findTXT rs = None"
proof -
  have "find (\<lambda>a. type_of (rr_data a) = TXT) rs = None"
    using assms by (simp add: find_None_iff)
  then show ?thesis by (simp add: findTXT_def)
qed

lemma findSRV_None:
  assumes "\<not> (\<exists>a \<in> set rs. type_of (rr_data a) = SRV)"
  shows "findSRV rs = None"
proof -
  have "find (\<lambda>a. type_of (rr_data a) = SRV) rs = None"
    using assms by (simp add: find_None_iff)
  then show ?thesis by (simp add: findSRV_def)
qed

lemma findA_None:
  assumes "\<not> (\<exists>a \<in> set rs. type_of (rr_data a) = ARec)"
  shows "findA rs = None"
proof -
  have "find (\<lambda>a. type_of (rr_data a) = ARec) rs = None"
    using assms by (simp add: find_None_iff)
  then show ?thesis by (simp add: findA_def)
qed

lemma findTXT_Some: "\<exists>a \<in> set rs. type_of (rr_data a) = TXT \<Longrightarrow> findTXT rs \<noteq> None"
proof -
  assume "\<exists>a \<in> set rs. type_of (rr_data a) = TXT"
  then obtain a where a: "find (\<lambda>a. type_of (rr_data a) = TXT) rs = Some a"
    by (cases "find (\<lambda>a. type_of (rr_data a) = TXT) rs") (auto simp: find_None_iff)
  then have "type_of (rr_data a) = TXT" by (auto simp: find_Some_iff)
  then show ?thesis
    unfolding findTXT_def a by (cases a; cases "rr_data a") auto
qed

lemma parseResponse_no_TXT: "findTXT (additionals r) = None \<Longrightarrow> parseResponse r = None"
  by (simp add: parseResponse_def split: option.split)

lemma parseResponse_no_SRV: "findSRV (additionals r) = None \<Longrightarrow> parseResponse r = None"
  by (simp add: parseResponse_def split: option.split)

lemma parseResponse_no_A: "findA (additionals r) = None \<Longrightarrow> parseResponse r = None"
  by (simp add: parseResponse_def split: option.split)

lemma set_map_set: "set (map_set k v m) \<subseteq> insert (k, v) (set m)"
  unfolding map_set_def by (induction m) auto

lemma evictDuplicates_subset: "set (evictDuplicates X B es m) \<subseteq> set m"
  unfolding evictDuplicates_filter by auto

lemma evictDuplicates_ok: "map_ok m \<Longrightarrow> map_ok (evictDuplicates X B es m)"
  unfolding evictDuplicates_filter by (rule map_ok_filter)

lemma sweep_subset: "set (sweep now es m) \<subseteq> set m"
  unfolding sweep_filter by auto

lemma sweep_ok: "map_ok m \<Longrightarrow> map_ok (sweep now es m)"
  unfolding sweep_filter by (rule map_ok_filter)

lemma table_inv_storePeer:
  assumes "table_inv s"
  shows "table_inv (storePeer newId newName newFp newPeerIp srvPort now s)"
proof (cases "newId = myId s")
  case True
  then show ?thesis using assms by (simp add: storePeer_def)
next
  case False
  let ?p = "\<lparr>peer_id = newId, peer_name = newName, ip = newPeerIp,
               port = srvPort, fingerprint = newFp, lastSeen = now\<rparr>"
  let ?m = "map_set newId ?p (evictDuplicates newPeerIp newId (peers s) (peers s))"
  have st: "storePeer newId newName newFp newPeerIp srvPort now s = s\<lparr>peers := ?m\<rparr>"
    using False by (simp add: storePeer_def)
  have ok: "map_ok ?m"
    using assms by (intro map_ok_set evictDuplicates_ok) (simp add: table_inv_def)
  have "set ?m \<subseteq> insert (newId, ?p) (set (peers s))"
    using set_map_set evictDuplicates_subset by fast
  moreover have "\<forall>e \<in> set (peers s). fst e \<noteq> myId s \<and> peer_id (snd e) = fst e"
    using assms by (simp add: table_inv_def list_all_iff)
  ultimately have "\<forall>e \<in> set ?m. fst e \<noteq> myId s \<and> peer_id (snd e) = fst e"
    using False by auto
  then show ?thesis
    unfolding st using ok by (simp add: table_inv_def list_all_iff)
qed

lemma myId_storePeer [simp]: "myId (storePeer a b c d e f s) = myId s"
  by (simp add: storePeer_def)

lemma table_inv_handleResponse: "table_inv s \<Longrightarrow> table_inv (handleResponse r now s)"
  by (auto simp: handleResponse_def table_inv_storePeer split: option.split)

lemma myId_handleResponse [simp]: "myId (handleResponse r now s) = myId s"
  by (simp add: handleResponse_def split: option.split)

lemma table_inv_getPeers: "table_inv s \<Longrightarrow> table_inv (snd (getPeers now s))"
proof -
  assume inv: "table_inv s"
  have "set (sweep now (peers s) (peers s)) \<subseteq> set (peers s)" by (rule sweep_subset)
  then show ?thesis
    using inv sweep_ok[of "peers s" now "peers s"]
    by (auto simp: table_inv_def getPeers_def Let_def list_all_iff)
qed

lemma myId_getPeers [simp]: "myId (snd (getPeers now s)) = myId s"
  by (simp add: getPeers_def Let_def)

lemma table_inv_sent [simp]: "table_inv (s\<lparr>sent := x\<rparr>) = table_inv s"
  by (simp add: table_inv_def)

lemma table_inv_handle: "table_inv s \<Longrightarrow> table_inv (handle ev s)"
  by (cases ev)
     (simp_all add: handleQuery_def announce_def discover_def table_inv_handleResponse
        table_inv_getPeers)

lemma myId_handle [simp]: "myId (handle ev s) = myId s"
  by (cases ev) (simp_all add: handleQuery_def announce_def discover_def)

lemma table_inv_run: "table_inv s \<Longrightarrow> table_inv (run evs s) \<and> myId (run evs s) = myId s"
  unfolding run_def
  by (induction evs arbitrary: s) (simp_all add: table_inv_handle)

lemma table_inv_new: "table_inv (new_MDNSService uuid hostname p fp)"
  by (simp add: table_inv_def new_MDNSService_def map_ok_def)

lemma filter_update_single:
  assumes "distinct (map fst al)" and "\<forall>e \<in> set al. fst e \<noteq> k \<longrightarrow> \<not> P e" and "P (k, v)"
  shows "filter P (AList.update k v al) = [(k, v)]"
  using assms
proof (induction al)
  case Nil
  then show ?case by simp
next
  case (Cons e al)
  show ?case
  proof (cases "fst e = k")
    case True
    with Cons.prems(1) have "k \<notin> fst ` set al" by simp
    then have "\<forall>x \<in> set al. fst x \<noteq> k" by force
    with Cons.prems(2) have "filter P al = []" by (simp add: filter_empty_conv)
    with True Cons.prems(3) show ?thesis by simp
  next
    case False
    with Cons show ?thesis by simp
  qed
qed


subsection \<open>Incomplete responses\<close>

text \<open>
  C7. A response whose answers hold a PTR record for the service name and whose
  additionals lack a TXT record, or an SRV record, or an A record, leaves the whole object
  as it was, the peer table included.
\<close>

theorem incomplete_response_ignored:
  assumes "\<exists>a \<in> set (answers response). rr_name a = serviceName \<and> type_of (rr_data a) = PTR"
    and "\<not> (\<exists>a \<in> set (additionals response). type_of (rr_data a) = TXT)
       \<or> \<not> (\<exists>a \<in> set (additionals response). type_of (rr_data a) = SRV)
       \<or> \<not> (\<exists>a \<in> set (additionals response). type_of (rr_data a) = ARec)"
  shows "handleResponse response now s = s"
proof -
  from assms(2) consider
      (noTXT) "\<not> (\<exists>a \<in> set (additionals response). type_of (rr_data a) = TXT)"
    | (noSRV) "\<not> (\<exists>a \<in> set (additionals response). type_of (rr_data a) = SRV)"
    | (noA) "\<not> (\<exists>a \<in> set (additionals response). type_of (rr_data a) = ARec)"
    by argo
  then have "parseResponse response = None"
  proof cases
    case noTXT
    then show ?thesis by (intro parseResponse_no_TXT findTXT_None)
  next
    case noSRV
    then show ?thesis by (intro parseResponse_no_SRV findSRV_None)
  next
    case noA
    then show ?thesis by (intro parseResponse_no_A findA_None)
  qed
  then show ?thesis by (simp add: handleResponse_def)
qed


theorem incomplete_response_ignored_witness:
  "(\<exists>a \<in> set (answers example_response_no_A).
       rr_name a = serviceName \<and> type_of (rr_data a) = PTR)
   \<and> \<not> (\<exists>a \<in> set (additionals example_response_no_A). type_of (rr_data a) = ARec)
   \<and> handleResponse example_response_no_A 50
         (example_service [(''a'', example_peer ''a'' ''10.0.0.1'' 20)])
       = example_service [(''a'', example_peer ''a'' ''10.0.0.1'' 20)]"
proof -
  have h1: "\<exists>a \<in> set (answers example_response_no_A).
       rr_name a = serviceName \<and> type_of (rr_data a) = PTR"
    by (simp add: example_response_no_A_def serviceName_def)
  have h2: "\<not> (\<exists>a \<in> set (additionals example_response_no_A). type_of (rr_data a) = ARec)"
    by (simp add: example_response_no_A_def)
  from h2 have h2': "\<not> (\<exists>a \<in> set (additionals example_response_no_A). type_of (rr_data a) = TXT)
       \<or> \<not> (\<exists>a \<in> set (additionals example_response_no_A). type_of (rr_data a) = SRV)
       \<or> \<not> (\<exists>a \<in> set (additionals example_response_no_A). type_of (rr_data a) = ARec)"
    by simp
  show ?thesis
    using h1 h2 incomplete_response_ignored [OF h1 h2'] by simp
qed

subsection \<open>The local id is never stored\<close>

text \<open>
  C9. Whatever queries, responses, announcements, discoveries and sweeps an object has
  handled since its construction, \<open>getPeers()\<close> returns no record whose id is the
  object's own id, and the table has no entry under that id.
\<close>

theorem getPeers_never_self:
  "(\<forall>p \<in> set (fst (getPeers now (run evs (new_MDNSService uuid hostname p fp)))). peer_id p \<noteq> uuid)
   \<and> \<not> map_has (peers (run evs (new_MDNSService uuid hostname p fp))) uuid"
proof -
  let ?s = "run evs (new_MDNSService uuid hostname p fp)"
  have inv: "table_inv ?s" and me: "myId ?s = uuid"
    using table_inv_run[OF table_inv_new, of evs uuid hostname p fp]
    by (simp_all add: new_MDNSService_def)
  have all: "\<forall>e \<in> set (peers ?s). fst e \<noteq> uuid \<and> peer_id (snd e) = fst e"
    using inv me by (simp add: table_inv_def list_all_iff)
  have "set (fst (getPeers now ?s)) \<subseteq> snd ` set (peers ?s)"
    using sweep_subset[of now "peers ?s" "peers ?s"]
    by (auto simp: getPeers_def Let_def map_values_def)
  with all have "\<forall>p \<in> set (fst (getPeers now ?s)). peer_id p \<noteq> uuid"
    by fastforce
  moreover have "uuid \<notin> fst ` set (peers ?s)"
    using all by auto
  then have "\<not> map_has (peers ?s) uuid"
    by (simp add: map_has_def map_of_eq_None_iff)
  ultimately show ?thesis by simp
qed


theorem getPeers_never_self_witness:
  "fst (getPeers 40
      (run [ResponseEv (example_response ''me'' ''10.0.0.7'') 10,
            ResponseEv (example_response ''a'' ''10.0.0.8'') 20]
        (new_MDNSService ''me'' ''host'' 9 ''FF'')))
     = [example_peer ''a'' ''10.0.0.8'' 20]
   \<and> peer_id (example_peer ''a'' ''10.0.0.8'' 20) \<noteq> ''me''
   \<and> \<not> map_has
        (peers (run [ResponseEv (example_response ''me'' ''10.0.0.7'') 10,
                     ResponseEv (example_response ''a'' ''10.0.0.8'') 20]
                 (new_MDNSService ''me'' ''host'' 9 ''FF''))) ''me''"
proof -
  have res: "fst (getPeers 40
      (run [ResponseEv (example_response ''me'' ''10.0.0.7'') 10,
            ResponseEv (example_response ''a'' ''10.0.0.8'') 20]
        (new_MDNSService ''me'' ''host'' 9 ''FF'')))
     = [example_peer ''a'' ''10.0.0.8'' 20]"
    by code_simp
  show ?thesis
    using res getPeers_never_self [of 40
        "[ResponseEv (example_response ''me'' ''10.0.0.7'') 10,
          ResponseEv (example_response ''a'' ''10.0.0.8'') 20]" "''me''" "''host''" 9 "''FF''"]
    by simp
qed

subsection \<open>A restarted peer\<close>

text \<open>
  C6. The table holds a record under id \<open>A\<close> with address \<open>X\<close>; a response that
  advertises id \<open>B\<close> and address \<open>X\<close> is handled, \<open>B\<close> being neither \<open>A\<close> nor the
  object's own id. Afterwards the records of the table with address \<open>X\<close> are exactly one,
  the new record filed under \<open>B\<close>, and nothing is filed under \<open>A\<close>.
\<close>

theorem restart_replaces_record:
  assumes "map_ok (peers s)"
    and "(A, pa) \<in> set (peers s)" and "ip pa = X"
    and "parseResponse response = Some (B, newName, newFp, X, srvPort)"
    and "B \<noteq> myId s" and "B \<noteq> A"
  shows "filter (\<lambda>e. ip (snd e) = X) (peers (handleResponse response now s)) =
           [(B, \<lparr>peer_id = B, peer_name = newName, ip = X, port = srvPort,
                 fingerprint = newFp, lastSeen = now\<rparr>)]
         \<and> \<not> map_has (peers (handleResponse response now s)) A"
proof -
  let ?p = "\<lparr>peer_id = B, peer_name = newName, ip = X, port = srvPort,
             fingerprint = newFp, lastSeen = now\<rparr>"
  let ?m = "filter (\<lambda>e. \<not> (ip (snd e) = X \<and> fst e \<noteq> B)) (peers s)"
  have tab: "peers (handleResponse response now s) = AList.update B ?p ?m"
    using assms(1,4,5)
    by (simp add: handleResponse_def storePeer_def evictDuplicates_self map_set_def)
  have dist: "distinct (map fst ?m)"
    using map_ok_filter[OF assms(1)] by (simp add: map_ok_def)
  have one: "filter (\<lambda>e. ip (snd e) = X) (AList.update B ?p ?m) = [(B, ?p)]"
    by (rule filter_update_single[OF dist]) auto
  have "A \<notin> fst ` set ?m"
    using assms(1,2,3,6) unfolding map_ok_def by (auto dest: eq_key_imp_eq_value)
  then have "A \<notin> fst ` set (AList.update B ?p ?m)"
    using assms(6) by (simp add: dom_update)
  then have gone: "\<not> map_has (AList.update B ?p ?m) A"
    by (simp add: map_has_def map_of_eq_None_iff)
  show ?thesis
    unfolding tab using one gone by simp
qed

theorem restart_replaces_record_witness:
  "map_ok (peers (example_service [(''a'', example_peer ''a'' ''10.0.0.7'' 20)]))
   \<and> (''a'', example_peer ''a'' ''10.0.0.7'' 20)
        \<in> set (peers (example_service [(''a'', example_peer ''a'' ''10.0.0.7'' 20)]))
   \<and> ip (example_peer ''a'' ''10.0.0.7'' 20) = ''10.0.0.7''
   \<and> parseResponse (example_response ''b'' ''10.0.0.7'')
        = Some (''b'', ''h'', ''AB12'', ''10.0.0.7'', 4000)
   \<and> ''b'' \<noteq> myId (example_service [(''a'', example_peer ''a'' ''10.0.0.7'' 20)])
   \<and> ''b'' \<noteq> ''a''
   \<and> filter (\<lambda>e. ip (snd e) = ''10.0.0.7'')
        (peers (handleResponse (example_response ''b'' ''10.0.0.7'') 30
           (example_service [(''a'', example_peer ''a'' ''10.0.0.7'' 20)])))
       = [(''b'', example_peer ''b'' ''10.0.0.7'' 30)]"
proof -
  let ?s = "example_service [(''a'', example_peer ''a'' ''10.0.0.7'' 20)]"
  have h1: "map_ok (peers ?s)"
    by (simp add: example_service_def map_ok_def)
  have h2: "(''a'', example_peer ''a'' ''10.0.0.7'' 20) \<in> set (peers ?s)"
    by (simp add: example_service_def)
  have h3: "ip (example_peer ''a'' ''10.0.0.7'' 20) = ''10.0.0.7''"
    by (simp add: example_peer_def)
  have h4: "parseResponse (example_response ''b'' ''10.0.0.7'')
        = Some (''b'', ''h'', ''AB12'', ''10.0.0.7'', 4000)"
    by code_simp
  have h5: "''b'' \<noteq> myId ?s"
    by (simp add: example_service_def)
  have h6: "''b'' \<noteq> ''a''"
    by simp
  show ?thesis
    using h1 h2 h3 h4 h5 h6 restart_replaces_record [OF h1 h2 h3 h4 h5 h6, of 30]
    by (simp add: example_peer_def)
qed

section \<open>Properties of the transfer server\<close>

lemma map_has_delete_same [simp]: "\<not> map_has (map_delete k m) k"
  by (simp add: map_has_def map_delete_def delete_conv')

lemma map_has_delete_other: "\<not> map_has m k \<Longrightarrow> \<not> map_has (map_delete k' m) k"
  by (simp add: map_has_def map_delete_def delete_conv')

lemma map_has_set_other: "k' \<noteq> k \<Longrightarrow> map_has (map_set k' v m) k = map_has m k"
  by (simp add: map_has_def map_set_def update_conv')

lemma map_delete_absent: "\<not> map_has m k \<Longrightarrow> map_delete k m = m"
  by (simp add: map_has_def map_delete_def map_of_eq_None_iff)

lemma activeDecisions_win_send [simp]: "activeDecisions (win_send msg s) = activeDecisions s"
  by (simp add: win_send_def)

lemma activeDecisions_call:
  "activeDecisions (call cb allowed s) =
     (case cb of Callback sock t \<Rightarrow>
        if allowed then activeDecisions s else map_delete t (activeDecisions s))"
  by (cases cb) (simp add: Let_def)

lemma handleDecision_removes: "\<not> map_has (activeDecisions (handleDecision tid allowed s)) tid"
proof (cases "map_get (activeDecisions s) tid")
  case None
  then show ?thesis by (simp add: handleDecision_def map_has_def map_get_def)
next
  case (Some cb)
  then show ?thesis by (simp add: handleDecision_def Let_def)
qed

lemma handleDecision_absent: "\<not> map_has (activeDecisions s) tid \<Longrightarrow> handleDecision tid allowed s = s"
  by (simp add: handleDecision_def map_has_def map_get_def)

lemma on_cancel_transfer_absent:
  "\<not> map_has (activeDecisions s) tid \<Longrightarrow> on_cancel_transfer sock tid s = s"
  by (simp add: on_cancel_transfer_def)

lemma absent_handleDecision:
  assumes "\<not> map_has (activeDecisions s) tid"
  shows "\<not> map_has (activeDecisions (handleDecision t allowed s)) tid"
proof (cases "map_get (activeDecisions s) t")
  case None
  then show ?thesis using assms by (simp add: handleDecision_def)
next
  case (Some cb)
  obtain sock u where cb: "cb = Callback sock u" by (cases cb)
  show ?thesis
    using assms Some cb
    by (simp add: handleDecision_def Let_def map_has_delete_other)
qed

lemma absent_server_handle:
  assumes "\<not> map_has (activeDecisions s) tid" and "\<not> registers tid ev"
  shows "\<not> map_has (activeDecisions (server_handle ev s)) tid"
proof (cases ev)
  case (Request_transfer sock data)
  with assms show ?thesis
    by (simp add: on_request_transfer_def Let_def map_has_set_other)
next
  case (Cancel_transfer_from sock t)
  with assms show ?thesis
    by (simp add: on_cancel_transfer_def Let_def map_has_delete_other)
next
  case (Disconnect sock)
  with assms show ?thesis
    by (simp add: on_disconnect_def map_has_delete_other split: option.split)
next
  case (Decision t allowed)
  with assms show ?thesis
    by (simp add: absent_handleDecision)
qed

lemma absent_server_run:
  "\<not> map_has (activeDecisions s) tid \<Longrightarrow> \<forall>ev \<in> set evs. \<not> registers tid ev \<Longrightarrow>
     \<not> map_has (activeDecisions (server_run evs s)) tid"
  by (induction evs arbitrary: s) (simp_all add: absent_server_handle)

text \<open>
  C8. A decision is pending for \<open>tid\<close>, filed by a \<open>request-transfer\<close> of connection
  \<open>sock\<close>. The first \<open>handleDecision\<close> for \<open>tid\<close> emits the outcome on that connection
  and leaves no entry under \<open>tid\<close>. After any further events that do not file \<open>tid\<close>
  anew, a \<open>transfer-decision\<close> or a \<open>cancel-transfer\<close> for \<open>tid\<close> changes nothing in the
  server: no message, no error, the same decision map.
\<close>

theorem decision_resolved_once:
  assumes "map_get (activeDecisions s) tid = Some (Callback sock tid)"
    and "\<forall>ev \<in> set evs. \<not> registers tid ev"
  shows "emitted (handleDecision tid allowed s) = emitted s @ [(sock, tid, allowed)]
       \<and> \<not> map_has (activeDecisions (handleDecision tid allowed s)) tid
       \<and> handleDecision tid allowed' (server_run evs (handleDecision tid allowed s))
           = server_run evs (handleDecision tid allowed s)
       \<and> on_cancel_transfer sock' tid (server_run evs (handleDecision tid allowed s))
           = server_run evs (handleDecision tid allowed s)"
proof -
  let ?s1 = "handleDecision tid allowed s"
  have sent: "emitted ?s1 = emitted s @ [(sock, tid, allowed)]"
    using assms(1) by (simp add: handleDecision_def Let_def)
  have gone: "\<not> map_has (activeDecisions ?s1) tid"
    by (rule handleDecision_removes)
  then have later: "\<not> map_has (activeDecisions (server_run evs ?s1)) tid"
    using assms(2) by (rule absent_server_run)
  show ?thesis
    using sent gone handleDecision_absent[OF later] on_cancel_transfer_absent[OF later]
    by simp
qed

theorem decision_resolved_once_witness:
  "map_get (activeDecisions example_server) ''t1'' = Some (Callback 1 ''t1'')
   \<and> \<not> registers ''t1'' (Cancel_transfer_from 1 ''t1'')
   \<and> \<not> registers ''t1'' (Decision ''t1'' False)
   \<and> \<not> registers ''t1'' (Disconnect 1)
   \<and> emitted (handleDecision ''t1'' True example_server)
       = emitted example_server @ [(1, ''t1'', True)]
   \<and> \<not> map_has (activeDecisions (handleDecision ''t1'' True example_server)) ''t1''
   \<and> handleDecision ''t1'' False
        (server_run [Cancel_transfer_from 1 ''t1'', Decision ''t1'' False, Disconnect 1]
           (handleDecision ''t1'' True example_server))
       = server_run [Cancel_transfer_from 1 ''t1'', Decision ''t1'' False, Disconnect 1]
           (handleDecision ''t1'' True example_server)
   \<and> on_cancel_transfer 1 ''t1''
        (server_run [Cancel_transfer_from 1 ''t1'', Decision ''t1'' False, Disconnect 1]
           (handleDecision ''t1'' True example_server))
       = server_run [Cancel_transfer_from 1 ''t1'', Decision ''t1'' False, Disconnect 1]
           (handleDecision ''t1'' True example_server)"
proof -
  have h1: "map_get (activeDecisions example_server) ''t1'' = Some (Callback 1 ''t1'')"
    by (simp add: example_server_def on_request_transfer_def Let_def example_request_def
          map_get_def map_set_def setWindow_def new_TransferServer_def win_send_def)
  have h2: "\<forall>ev \<in> set [Cancel_transfer_from 1 ''t1'', Decision ''t1'' False, Disconnect 1].
         \<not> registers ''t1'' ev"
    by simp
  show ?thesis
    using h1 decision_resolved_once [OF h1 h2, of True False 1]
    by simp
qed

section \<open>Properties of the upload route\<close>

text \<open>
  C3. The claim is that the path the file is written to lies within the downloads
  directory for every \<open>filename\<close>. It does not: with the downloads directory
  \<open>/home/u/Downloads\<close> and the \<open>filename\<close> \<open>../.ssh/authorized_keys\<close> the route writes to
  \<open>/home/u/.ssh/authorized_keys\<close>.
\<close>

theorem upload_escapes_downloads:
  "upload_savePath ''/home/u/Downloads'' ''../.ssh/authorized_keys'' = ''/home/u/.ssh/authorized_keys''
   \<and> \<not> within ''/home/u/Downloads''
         (upload_savePath ''/home/u/Downloads'' ''../.ssh/authorized_keys'')"
  by code_simp

section \<open>Properties of the fingerprint\<close>

text \<open>The test vector of FIPS 180-4 for the message \<open>abc\<close>.\<close>

lemma sha256_hex_abc:
  "sha256_hex ''abc'' = ''ba7816bf8f01cfea414140de5dae2223b00361a396177a9cb410ff61f20015ad''"
  by code_simp

text \<open>
  The digest is the low 32 bits of each word: \<open>m32\<close> is the remainder modulo \<open>2 ^ 32\<close>, and
  \<open>rotr\<close> with its mask and factor is the rotation of a word below \<open>2 ^ 32\<close>.
\<close>

lemma m32_mod: "m32 x = x mod 2 ^ 32"
  by (simp add: m32_def drop_bit_eq_div minus_mult_div_eq_mod)

lemma rotr_div_mod: "rotr n (2 ^ n - 1) (2 ^ (32 - n)) x = x div 2 ^ n + (x mod 2 ^ n) * 2 ^ (32 - n)"
  by (simp add: rotr_def drop_bit_eq_div flip: mask_eq_exp_minus_1 take_bit_eq_mask take_bit_eq_mod)

text \<open>The digests of the example certificate: of its PEM text and of its DER bytes.\<close>

lemma example_pem_digest:
  "sha256_hex example_pem = ''e39012549386938724b44fd8e06fb2d9b236cdcaf09b25c7596d6c7eeee9fd6d''"
  by code_simp

lemma example_der_digest:
  "sha256_hex (der_of_pem example_pem) =
     ''3ed6c9333751dc0970a79c0e52e48f7a05903bf6a247289007b5095c24955071''"
  by code_simp

lemma example_der_fingerprint:
  "toUpperCase (sha256_hex (der_of_pem example_pem)) =
     ''3ED6C9333751DC0970A79C0E52E48F7A05903BF6A247289007B5095C24955071''"
  unfolding example_der_digest by code_simp

lemma example_pem_fingerprint:
  "toUpperCase (sha256_hex example_pem) =
     ''E39012549386938724B44FD8E06FB2D9B236CDCAF09B25C7596D6C7EEEE9FD6D''"
  unfolding example_pem_digest by code_simp

text \<open>
  C2. The claim is that the fingerprint \<open>generateCerts\<close> produces is the uppercase
  hexadecimal SHA-256 of the certificate's DER bytes, the digest \<open>checkServerIdentity\<close>
  computes. On the example certificate \<open>generateCerts\<close> produces the digest of the PEM
  text, the digest of the DER bytes is another one, and \<open>checkServerIdentity\<close> refuses the
  fingerprint produced when it is shown that very certificate.
\<close>

theorem generateCerts_hashes_pem_text:
  "generateCerts (Inr example_pems) =
     Inr \<lparr>myKeys_key = ''(private key)'', myKeys_cert = example_pem,
          myFingerprint_value = ''E39012549386938724B44FD8E06FB2D9B236CDCAF09B25C7596D6C7EEEE9FD6D''\<rparr>
   \<and> toUpperCase (sha256_hex (der_of_pem example_pem)) =
       ''3ED6C9333751DC0970A79C0E52E48F7A05903BF6A247289007B5095C24955071''
   \<and> checkServerIdentity ''E39012549386938724B44FD8E06FB2D9B236CDCAF09B25C7596D6C7EEEE9FD6D''
         (der_of_pem example_pem) = Some ''Fingerprint mismatch!''"
  by (simp add: generateCerts_def example_pems_def checkServerIdentity_def
        example_pem_fingerprint example_der_fingerprint)

text \<open>
  C4, as claimed, fails: a recorded fingerprint that equals the digest of the presented
  certificate except for the case of its letters is refused.
\<close>

theorem lowercase_fingerprint_rejected:
  "equal_ignoring_case (sha256_hex (der_of_pem example_pem))
     ''3ed6c9333751dc0970a79c0e52e48f7a05903bf6a247289007b5095c24955071''
   \<and> checkServerIdentity ''3ed6c9333751dc0970a79c0e52e48f7a05903bf6a247289007b5095c24955071''
         (der_of_pem example_pem) = Some ''Fingerprint mismatch!''"
proof -
  have "toUpperCase ''3ed6c9333751dc0970a79c0e52e48f7a05903bf6a247289007b5095c24955071'' =
          ''3ED6C9333751DC0970A79C0E52E48F7A05903BF6A247289007B5095C24955071''"
    by code_simp
  then show ?thesis
    by (simp add: equal_ignoring_case_def checkServerIdentity_def example_der_fingerprint)
qed

text \<open>
  C4, amended. The comparison is exact: the check passes if and only if the recorded
  fingerprint is the uppercase hexadecimal SHA-256 of the presented certificate's DER
  bytes, character for character.
\<close>

theorem checkServerIdentity_exact:
  "checkServerIdentity expectedFingerprint raw = None
     \<longleftrightarrow> expectedFingerprint = toUpperCase (sha256_hex raw)"
  by (auto simp: checkServerIdentity_def Let_def)

theorem checkServerIdentity_exact_witness:
  "checkServerIdentity ''3ED6C9333751DC0970A79C0E52E48F7A05903BF6A247289007B5095C24955071''
     (der_of_pem example_pem) = None"
  using checkServerIdentity_exact
    [of "''3ED6C9333751DC0970A79C0E52E48F7A05903BF6A247289007B5095C24955071''"
        "der_of_pem example_pem"]
  by (simp add: example_der_fingerprint)

section \<open>Properties of sending\<close>













end
